theory Spec2Isabelle
  imports Complex_Main "HOL-Library.Sublist"
begin

section \<open>Values, exceptions and tables\<close>

text \<open>
  The program is a pandas/scikit-learn script. Its tables are pandas DataFrames: a list of
  column names and a list of rows, every row carrying its index label. The label is the
  row number the row had in the CSV file: neither the boolean filter nor
  \<^verbatim>\<open>drop_duplicates\<close> of \<^verbatim>\<open>cargar_datos\<close> renumbers the rows, so labels and
  positions differ as soon as one row of the file is dropped.

  A cell is missing (\<open>NaN\<close>), text or a number. Numbers are rationals: the arithmetic of
  the model is exact where Python rounds to a double. Text is ASCII; the library calls are
  modelled with the behaviour of pandas 2.x and the default arguments of the calls.
  \<open>NotModelled\<close> marks a library behaviour this development leaves open: a regular
  expression outside the modelled fragment, and a column name that occurs twice, where
  \<^verbatim>\<open>df[name]\<close> is a table and no longer a column.
\<close>

datatype cell = NaN | Str string | Num rat

datatype py_error =
  KeyError | IndexError | AttributeError | TypeError | ValueError | ReError | NotModelled

record dataframe =
  columns :: "string list"
  rows :: "(nat \<times> cell list) list"

definition bind_err :: "'e + 'a \<Rightarrow> ('a \<Rightarrow> 'e + 'b) \<Rightarrow> 'e + 'b" where
  "bind_err m f = (case m of Inl e \<Rightarrow> Inl e | Inr x \<Rightarrow> f x)"

definition col_positions :: "string \<Rightarrow> string list \<Rightarrow> nat list" where
  "col_positions name cols = filter (\<lambda>i. cols ! i = name) [0..<length cols]"

text \<open>Every row of a DataFrame has one cell per column; \<open>cell_at\<close> reads it.\<close>

definition cell_at :: "cell list \<Rightarrow> nat \<Rightarrow> cell" where
  "cell_at cs k = (if k < length cs then cs ! k else NaN)"

text \<open>\<^verbatim>\<open>df[name]\<close> on a name that is absent raises KeyError.\<close>

definition col_index :: "string \<Rightarrow> dataframe \<Rightarrow> py_error + nat" where
  "col_index name df =
     (case col_positions name (columns df) of
        [] \<Rightarrow> Inl KeyError
      | [k] \<Rightarrow> Inr k
      | _ \<Rightarrow> Inl NotModelled)"

definition upper_chars :: "char list" where
  "upper_chars = ''ABCDEFGHIJKLMNOPQRSTUVWXYZ''"

definition lower_chars :: "char list" where
  "lower_chars = ''abcdefghijklmnopqrstuvwxyz''"

definition lower_char :: "char \<Rightarrow> char" where
  "lower_char c = (case map_of (zip upper_chars lower_chars) c of Some d \<Rightarrow> d | None \<Rightarrow> c)"

text \<open>The cell of a row under a column name (the first column of that name).\<close>

definition field :: "string \<Rightarrow> dataframe \<Rightarrow> cell list \<Rightarrow> cell" where
  "field name df cs =
     (case col_positions name (columns df) of [] \<Rightarrow> NaN | k # _ \<Rightarrow> cell_at cs k)"

definition column :: "string \<Rightarrow> dataframe \<Rightarrow> cell list" where
  "column name df = map (\<lambda>r. field name df (snd r)) (rows df)"

definition well_formed :: "dataframe \<Rightarrow> bool" where
  "well_formed df = list_all (\<lambda>r. length (snd r) = length (columns df)) (rows df)"

section \<open>Loading and cleaning: \<^verbatim>\<open>cargar_datos\<close>\<close>

text \<open>
  \<open>procesar\<close> is the body of the \<^verbatim>\<open>try\<close> block after \<^verbatim>\<open>read_csv\<close> (lines 24 to 41):
  fill the trade name, coerce the three capacity columns, keep the rows of Quindio,
  normalise the column names, fill every remaining missing cell, drop duplicate rows.
  \<^verbatim>\<open>pd.to_numeric(..., errors="coerce")\<close> reads a number out of a text cell or gives NaN;
  which texts are numbers is the parameter \<open>parse\<close>. The in-place \<^verbatim>\<open>fillna\<close> on the
  trade-name column acts on the table, as it does in pandas 2.x. The column names of a
  table read by \<^verbatim>\<open>read_csv\<close> are pairwise different.
\<close>

definition update_at :: "nat \<Rightarrow> (cell \<Rightarrow> cell) \<Rightarrow> cell list \<Rightarrow> cell list" where
  "update_at k f cs = cs[k := f (cell_at cs k)]"

definition map_col :: "nat \<Rightarrow> (cell \<Rightarrow> cell) \<Rightarrow> dataframe \<Rightarrow> dataframe" where
  "map_col k f df = df \<lparr> rows := map (\<lambda>r. (fst r, update_at k f (snd r))) (rows df) \<rparr>"

fun fillna :: "string \<Rightarrow> cell \<Rightarrow> cell" where
  "fillna v NaN = Str v"
| "fillna v c = c"

fun to_numeric :: "(string \<Rightarrow> rat option) \<Rightarrow> cell \<Rightarrow> cell" where
  "to_numeric parse (Str s) = (case parse s of Some q \<Rightarrow> Num q | None \<Rightarrow> NaN)"
| "to_numeric parse c = c"

definition fillna_column :: "string \<Rightarrow> string \<Rightarrow> dataframe \<Rightarrow> py_error + dataframe" where
  "fillna_column name v df = bind_err (col_index name df) (\<lambda>k. Inr (map_col k (fillna v) df))"

definition to_numeric_column ::
  "(string \<Rightarrow> rat option) \<Rightarrow> string \<Rightarrow> dataframe \<Rightarrow> py_error + dataframe" where
  "to_numeric_column parse name df =
     bind_err (col_index name df) (\<lambda>k. Inr (map_col k (to_numeric parse) df))"

text \<open>\<^verbatim>\<open>df[df[name] == v]\<close>: the rows whose cell is the text \<open>v\<close>, labels kept.\<close>

definition filter_eq :: "string \<Rightarrow> string \<Rightarrow> dataframe \<Rightarrow> py_error + dataframe" where
  "filter_eq name v df =
     bind_err (col_index name df)
       (\<lambda>k. Inr (df \<lparr> rows := filter (\<lambda>r. cell_at (snd r) k = Str v) (rows df) \<rparr>))"

text \<open>The characters \<^verbatim>\<open>str.strip()\<close> removes from both ends of an ASCII string.\<close>

definition py_space :: "char list" where
  "py_space = [CHR 0x09, CHR 0x0A, CHR 0x0B, CHR 0x0C, CHR 0x0D,
               CHR 0x1C, CHR 0x1D, CHR 0x1E, CHR 0x1F, CHR 0x20]"

definition strip :: "string \<Rightarrow> string" where
  "strip s =
     rev (dropWhile (\<lambda>c. c \<in> set py_space) (rev (dropWhile (\<lambda>c. c \<in> set py_space) s)))"

text \<open>\<^verbatim>\<open>columns.str.strip().str.lower().str.replace(" ", "_")\<close>, one name.\<close>

definition normalizar :: "string \<Rightarrow> string" where
  "normalizar s = map (\<lambda>c. if c = CHR 0x20 then CHR ''_'' else c) (map lower_char (strip s))"

definition rename_columns :: "dataframe \<Rightarrow> dataframe" where
  "rename_columns df = df \<lparr> columns := map normalizar (columns df) \<rparr>"

definition fillna_all :: "string \<Rightarrow> dataframe \<Rightarrow> dataframe" where
  "fillna_all v df = df \<lparr> rows := map (\<lambda>r. (fst r, map (fillna v) (snd r))) (rows df) \<rparr>"

text \<open>
  \<^verbatim>\<open>drop_duplicates\<close> compares the cells of the rows, not their labels, and keeps the
  first of equal rows. \<open>seen\<close> holds the rows already kept.
\<close>

fun keep_first :: "cell list list \<Rightarrow> (nat \<times> cell list) list \<Rightarrow> (nat \<times> cell list) list" where
  "keep_first seen [] = []"
| "keep_first seen (r # rs) =
     (if snd r \<in> set seen then keep_first seen rs else r # keep_first (snd r # seen) rs)"

definition drop_duplicates :: "dataframe \<Rightarrow> dataframe" where
  "drop_duplicates df = df \<lparr> rows := keep_first [] (rows df) \<rparr>"

definition procesar :: "(string \<Rightarrow> rat option) \<Rightarrow> dataframe \<Rightarrow> py_error + dataframe" where
  "procesar parse data =
     bind_err (fillna_column ''RAZON_SOCIAL_ESTABLECIMIENTO'' ''DESCONOCIDO'' data) (\<lambda>d1.
     bind_err (to_numeric_column parse ''NUMERO_DE_EMPLEADOS'' d1) (\<lambda>d2.
     bind_err (to_numeric_column parse ''NUMERO_DE_CAMAS'' d2) (\<lambda>d3.
     bind_err (to_numeric_column parse ''NUMERO_DE_HABITACIONES'' d3) (\<lambda>d4.
     bind_err (filter_eq ''DEPARTAMENTO'' ''QUINDIO'' d4) (\<lambda>d5.
     Inr (drop_duplicates (fillna_all ''No disponible'' (rename_columns d5))))))))"

text \<open>
  \<open>csv\<close> is what \<^verbatim>\<open>pd.read_csv\<close> gave: a table or an exception. Whatever is raised inside
  the \<^verbatim>\<open>try\<close> is reported and the function returns \<^verbatim>\<open>None\<close>. (The function is cached
  too, line 17; it takes no argument and changes nothing of its caller, so a stored value is
  the value of the run that stored it.)
\<close>

definition cargar_datos ::
  "(string \<Rightarrow> rat option) \<Rightarrow> py_error + dataframe \<Rightarrow> dataframe option" where
  "cargar_datos parse csv =
     (case bind_err csv (procesar parse) of Inl e \<Rightarrow> None | Inr d \<Rightarrow> Some d)"

text \<open>
  What a cell of the cleaned table may be, given the cell \<open>c0\<close> the file had at that place:
  never missing, and one of the two sentinel texts or the file's own cell, a capacity cell
  read as text standing as the number it parses to.
\<close>

definition from_source :: "(string \<Rightarrow> rat option) \<Rightarrow> cell \<Rightarrow> cell \<Rightarrow> bool" where
  "from_source parse c0 c =
     (c = c0 \<or> (case c0 of Str s \<Rightarrow> (case parse s of Some q \<Rightarrow> c = Num q | None \<Rightarrow> False)
                | _ \<Rightarrow> False))"

definition clean_cell :: "(string \<Rightarrow> rat option) \<Rightarrow> cell \<Rightarrow> cell \<Rightarrow> bool" where
  "clean_cell parse c0 c =
     (c \<noteq> NaN \<and>
      (c = Str ''DESCONOCIDO'' \<or> c = Str ''No disponible'' \<or> from_source parse c0 c))"

section \<open>The similarity matrix: \<^verbatim>\<open>calcular_similitud\<close>\<close>

text \<open>
  \<^verbatim>\<open>astype(str)\<close> leaves text as it is and renders a missing cell as \<^verbatim>\<open>nan\<close>; how a
  number is rendered is the parameter \<open>fmt\<close>.
\<close>

definition astype_str :: "(rat \<Rightarrow> string) \<Rightarrow> cell \<Rightarrow> string" where
  "astype_str fmt c = (case c of Str s \<Rightarrow> s | Num q \<Rightarrow> fmt q | NaN \<Rightarrow> ''nan'')"

text \<open>\<^verbatim>\<open>df[name] = values\<close>: a new last column, or the column of that name overwritten.\<close>

definition assign_column :: "string \<Rightarrow> cell list \<Rightarrow> dataframe \<Rightarrow> py_error + dataframe" where
  "assign_column name vs df =
     (case col_positions name (columns df) of
        [] \<Rightarrow> Inr \<lparr> columns = columns df @ [name],
                       rows = map2 (\<lambda>r v. (fst r, snd r @ [v])) (rows df) vs \<rparr>
      | [k] \<Rightarrow> Inr (df \<lparr> rows := map2 (\<lambda>r v. (fst r, (snd r)[k := v])) (rows df) vs \<rparr>)
      | _ \<Rightarrow> Inl NotModelled)"

definition info_text :: "(rat \<Rightarrow> string) \<Rightarrow> nat \<Rightarrow> nat \<Rightarrow> dataframe \<Rightarrow> string list" where
  "info_text fmt kc km df =
     map (\<lambda>r. astype_str fmt (cell_at (snd r) kc) @ '' '' @ astype_str fmt (cell_at (snd r) km))
       (rows df)"

text \<open>
  The body of the function, lines 49 to 53. Lines 50 to 52 hand the feature texts to
  scikit-learn: \<^verbatim>\<open>cosine_similarity\<close> of \<^verbatim>\<open>CountVectorizer().fit_transform\<close>. The library is
  no part of the program: it is the parameter \<open>sk\<close>, a function from the documents to the
  matrix it returns or the exception it raises. Its tokenisation and its double-precision
  arithmetic stay inside the parameter. Line 49 assigns to a column of the table the
  function was given, so the model returns the table as the body leaves it, together with
  the result.
\<close>

definition calcular_similitud_body ::
  "(rat \<Rightarrow> string) \<Rightarrow> (string list \<Rightarrow> py_error + 'm) \<Rightarrow> dataframe
     \<Rightarrow> dataframe \<times> (py_error + 'm)" where
  "calcular_similitud_body fmt sk df =
     (case col_index ''categoria'' df of
        Inl e \<Rightarrow> (df, Inl e)
      | Inr kc \<Rightarrow>
          (case col_index ''municipio'' df of
             Inl e \<Rightarrow> (df, Inl e)
           | Inr km \<Rightarrow>
               (let info = info_text fmt kc km df in
                case assign_column ''info'' (map Str info) df of
                  Inl e \<Rightarrow> (df, Inl e)
                | Inr df' \<Rightarrow> (df', sk info))))"

text \<open>
  \<^verbatim>\<open>@st.cache_data\<close> (line 47) stores the value the body returns under the content of
  the argument. A call whose table is in the cache returns the stored matrix and does not
  run the body; any other call runs the body on the caller's table and, when the body
  returns a matrix, stores it under the table as it was when the call was made. The cache
  is state: the function takes it and gives it back. Its entries are pairs of a table and
  the matrix stored for it, the newest first.
\<close>

definition calcular_similitud ::
  "(rat \<Rightarrow> string) \<Rightarrow> (string list \<Rightarrow> py_error + 'm) \<Rightarrow> (dataframe \<times> 'm) list
     \<Rightarrow> dataframe \<Rightarrow> dataframe \<times> (py_error + 'm) \<times> (dataframe \<times> 'm) list" where
  "calcular_similitud fmt sk cache df =
     (case map_of cache df of
        Some M \<Rightarrow> (df, Inr M, cache)
      | None \<Rightarrow>
          (case calcular_similitud_body fmt sk df of
             (df', Inl e) \<Rightarrow> (df', Inl e, cache)
           | (df', Inr M) \<Rightarrow> (df', Inr M, (df, M) # cache)))"

text \<open>A cache that holds only what calls of the function stored in it.\<close>

definition cache_ok ::
  "(rat \<Rightarrow> string) \<Rightarrow> (string list \<Rightarrow> py_error + 'm) \<Rightarrow> (dataframe \<times> 'm) list \<Rightarrow> bool" where
  "cache_ok fmt sk cache =
     list_all (\<lambda>entry. snd (calcular_similitud_body fmt sk (fst entry)) = Inr (snd entry)) cache"

text \<open>The feature text of every row: category, a space, locality.\<close>

definition feature_texts :: "(rat \<Rightarrow> string) \<Rightarrow> dataframe \<Rightarrow> string list" where
  "feature_texts fmt df =
     (case col_index ''categoria'' df of
        Inl e \<Rightarrow> []
      | Inr kc \<Rightarrow>
          (case col_index ''municipio'' df of Inl e \<Rightarrow> [] | Inr km \<Rightarrow> info_text fmt kc km df))"

section \<open>The recommender: \<^verbatim>\<open>recomendar_establecimientos\<close>\<close>

text \<open>
  \<^verbatim>\<open>Series.str.contains(nombre, case=False, na=False)\<close> leaves \<^verbatim>\<open>regex\<close> at its default
  \<^verbatim>\<open>True\<close>: \<^verbatim>\<open>nombre\<close> is compiled as a regular expression with \<^verbatim>\<open>re.IGNORECASE\<close> and
  searched in every text cell; a cell that is not text counts as no match (\<^verbatim>\<open>na=False\<close>).
  The fragment modelled: a character that is not special stands for itself, a dot for any
  character but a newline, and a pattern that starts with a repetition operator is refused
  by \<^verbatim>\<open>re.compile\<close> (nothing to repeat). Every other use of a special character is
  \<open>NotModelled\<close>.
\<close>

datatype atom = Lit char | AnyChar

definition special_chars :: "char list" where
  "special_chars = CHR 0x5C # ''.^$*+?{}[]|()''"

fun compile_atoms :: "string \<Rightarrow> py_error + atom list" where
  "compile_atoms [] = Inr []"
| "compile_atoms (c # cs) =
     (if c = CHR ''.'' then map_sum id (Cons AnyChar) (compile_atoms cs)
      else if c \<in> set special_chars then Inl NotModelled
      else map_sum id (Cons (Lit c)) (compile_atoms cs))"

definition re_compile :: "string \<Rightarrow> py_error + atom list" where
  "re_compile pat =
     (case pat of
        [] \<Rightarrow> Inr []
      | c # cs \<Rightarrow> if c \<in> set ''*+?'' then Inl ReError else compile_atoms pat)"

fun atom_matches :: "atom \<Rightarrow> char \<Rightarrow> bool" where
  "atom_matches (Lit a) c = (lower_char a = lower_char c)"
| "atom_matches AnyChar c = (c \<noteq> CHR 0x0A)"

fun match_here :: "atom list \<Rightarrow> string \<Rightarrow> bool" where
  "match_here [] s = True"
| "match_here (a # as) [] = False"
| "match_here (a # as) (c # cs) = (atom_matches a c \<and> match_here as cs)"

fun re_search :: "atom list \<Rightarrow> string \<Rightarrow> bool" where
  "re_search p [] = match_here p []"
| "re_search p (c # cs) = (match_here p (c # cs) \<or> re_search p cs)"

fun str_contains :: "atom list \<Rightarrow> cell \<Rightarrow> bool" where
  "str_contains p (Str s) = re_search p s"
| "str_contains p c = False"

text \<open>
  \<^verbatim>\<open>sorted(scores, key=lambda x: x[1], reverse=True)\<close>: descending by score, and pairs of
  equal score stay in the order they had (Python's sort is stable, also when reversed).
\<close>

fun insert_desc :: "(nat \<times> 'a::linorder) \<Rightarrow> (nat \<times> 'a) list \<Rightarrow> (nat \<times> 'a) list" where
  "insert_desc x [] = [x]"
| "insert_desc x (y # ys) = (if snd y < snd x then x # y # ys else y # insert_desc x ys)"

definition sorted_desc :: "(nat \<times> 'a::linorder) list \<Rightarrow> (nat \<times> 'a) list" where
  "sorted_desc xs = foldl (\<lambda>acc x. insert_desc x acc) [] xs"

text \<open>The slice \<^verbatim>\<open>xs[1:stop]\<close>; a negative \<open>stop\<close> counts from the end.\<close>

definition slice_from_1 :: "'b list \<Rightarrow> int \<Rightarrow> 'b list" where
  "slice_from_1 xs stop =
     (let len = int (length xs);
          e = (if stop < 0 then max 0 (len + stop) else min stop len)
      in take (nat e - 1) (drop 1 xs))"

text \<open>\<^verbatim>\<open>df.iloc[indices]\<close> selects by position and raises IndexError out of range.\<close>

definition iloc :: "nat list \<Rightarrow> dataframe \<Rightarrow> py_error + dataframe" where
  "iloc indices df =
     (if list_ex (\<lambda>i. length (rows df) \<le> i) indices then Inl IndexError
      else Inr (df \<lparr> rows := map (\<lambda>i. rows df ! i) indices \<rparr>))"

text \<open>\<^verbatim>\<open>df[[names]]\<close>: the columns of these names, KeyError when a name is absent.\<close>

definition project :: "string list \<Rightarrow> dataframe \<Rightarrow> py_error + dataframe" where
  "project names df =
     (if list_ex (\<lambda>name. col_positions name (columns df) = []) names then Inl KeyError
      else
        let ps = concat (map (\<lambda>name. col_positions name (columns df)) names)
        in Inr \<lparr> columns = map (\<lambda>p. columns df ! p) ps,
                  rows = map (\<lambda>r. (fst r, map (cell_at (snd r)) ps)) (rows df) \<rparr>)"

text \<open>
  The result is \<open>Inr None\<close> where the function returns \<^verbatim>\<open>None\<close> (an IndexError was
  caught), \<open>Inr (Some d)\<close> where it returns the table \<open>d\<close>, and \<open>Inl e\<close> where the
  exception \<open>e\<close> leaves the function: only IndexError is caught.
  \<^verbatim>\<open>df[mask].index[0]\<close> is the label of the first matching row, and
  \<^verbatim>\<open>similaridad[idx]\<close> reads the matrix row at that number. A column
  \<^verbatim>\<open>razon_social\<close> that occurs twice selects a DataFrame, which has no \<^verbatim>\<open>.str\<close>.
\<close>

definition recomendar_establecimientos ::
  "string \<Rightarrow> dataframe \<Rightarrow> ('a::linorder) list list \<Rightarrow> int \<Rightarrow> py_error + dataframe option" where
  "recomendar_establecimientos nombre df similaridad n =
     (case col_positions ''razon_social'' (columns df) of
        [] \<Rightarrow> Inl KeyError
      | [k] \<Rightarrow>
          (case re_compile nombre of
             Inl e \<Rightarrow> Inl e
           | Inr pat \<Rightarrow>
               (case filter (\<lambda>r. str_contains pat (cell_at (snd r) k)) (rows df) of
                  [] \<Rightarrow> Inr None
                | r # _ \<Rightarrow>
                    (let idx = fst r in
                     if length similaridad \<le> idx then Inr None
                     else
                       (let scores = sorted_desc (enumerate 0 (similaridad ! idx));
                            indices = map fst (slice_from_1 scores (n + 1))
                        in case iloc indices df of
                             Inl e \<Rightarrow> Inr None
                           | Inr sel \<Rightarrow>
                               map_sum id Some
                                 (project [''razon_social'', ''categoria'', ''municipio''] sel)))))
      | _ \<Rightarrow> Inl AttributeError)"



section \<open>Descriptive statistics: the third tab of \<^verbatim>\<open>main\<close>\<close>

text \<open>
  Lines 149 to 158: when the three capacity columns are present, their mean, median,
  sample standard deviation, minimum and maximum. Since pandas 2.0 a reduction no longer
  drops a column it cannot reduce (\<^verbatim>\<open>numeric_only\<close> defaults to \<^verbatim>\<open>False\<close>): a column
  that holds text makes the call raise TypeError. Missing cells are skipped; a statistic
  without enough numbers is NaN, here \<open>None\<close>.
\<close>

fun is_text :: "cell \<Rightarrow> bool" where
  "is_text (Str s) = True"
| "is_text c = False"

fun number_of :: "cell \<Rightarrow> real list" where
  "number_of (Num q) = [of_rat q]"
| "number_of c = []"

definition numeric_values :: "cell list \<Rightarrow> py_error + real list" where
  "numeric_values cs =
     (if list_ex is_text cs then Inl TypeError else Inr (concat (map number_of cs)))"

definition mean :: "real list \<Rightarrow> real option" where
  "mean xs = (if xs = [] then None else Some (sum_list xs / real (length xs)))"

definition median :: "real list \<Rightarrow> real option" where
  "median xs =
     (if xs = [] then None
      else let s = sort xs; n = length s
           in Some (if odd n then s ! (n div 2) else (s ! (n div 2 - 1) + s ! (n div 2)) / 2))"

definition std :: "real list \<Rightarrow> real option" where
  "std xs =
     (if length xs < 2 then None
      else let m = sum_list xs / real (length xs)
           in Some (sqrt (sum_list (map (\<lambda>x. (x - m) * (x - m)) xs) / real (length xs - 1))))"

definition minimum :: "real list \<Rightarrow> real option" where
  "minimum xs = (case xs of [] \<Rightarrow> None | x # ys \<Rightarrow> Some (fold min ys x))"

definition maximum :: "real list \<Rightarrow> real option" where
  "maximum xs = (case xs of [] \<Rightarrow> None | x # ys \<Rightarrow> Some (fold max ys x))"

record stats =
  media :: "real option"
  mediana :: "real option"
  desviacion_estandar :: "real option"
  minimo :: "real option"
  maximo :: "real option"

definition describe :: "real list \<Rightarrow> stats" where
  "describe xs = \<lparr> media = mean xs, mediana = median xs, desviacion_estandar = std xs,
                   minimo = minimum xs, maximo = maximum xs \<rparr>"

definition cols_numericas :: "string list" where
  "cols_numericas = [''numero_de_habitaciones'', ''numero_de_camas'', ''numero_de_empleados'']"

definition column_values :: "string \<Rightarrow> dataframe \<Rightarrow> py_error + real list" where
  "column_values name df =
     bind_err (col_index name df)
       (\<lambda>k. numeric_values (map (\<lambda>r. cell_at (snd r) k) (rows df)))"

fun all_columns :: "string list \<Rightarrow> dataframe \<Rightarrow> py_error + (string \<times> stats) list" where
  "all_columns [] df = Inr []"
| "all_columns (name # names) df =
     bind_err (column_values name df) (\<lambda>xs.
     bind_err (all_columns names df) (\<lambda>rest. Inr ((name, describe xs) # rest)))"

text \<open>\<open>Inr None\<close>: a capacity column is absent and the block is skipped.\<close>

definition descriptive_stats :: "dataframe \<Rightarrow> py_error + (string \<times> stats) list option" where
  "descriptive_stats df =
     (if list_all (\<lambda>col. col \<in> set (columns df)) cols_numericas
      then map_sum id Some (all_columns cols_numericas df)
      else Inr None)"

section \<open>The operations as the specification words them\<close>

text \<open>
  For comparison only: the first row, by position, whose trade name contains the query as
  a literal substring, letter case ignored; all other rows ranked by descending score in
  the matrix row of that position, ties in row order; the first \<open>n\<close> of them, as trade
  name, category and locality. \<open>None\<close> is NotFound.
\<close>

fun contains_literal :: "string \<Rightarrow> cell \<Rightarrow> bool" where
  "contains_literal q (Str s) = sublist (map lower_char q) (map lower_char s)"
| "contains_literal q c = False"

definition recommend_spec ::
  "string \<Rightarrow> dataframe \<Rightarrow> ('a::linorder) list list \<Rightarrow> nat \<Rightarrow> cell list list option" where
  "recommend_spec q df matrix n =
     (case filter (\<lambda>p. contains_literal q (field ''razon_social'' df (snd (rows df ! p))))
             [0..<length (rows df)] of
        [] \<Rightarrow> None
      | p # _ \<Rightarrow>
          Some (map (\<lambda>i. map (\<lambda>name. field name df (snd (rows df ! i)))
                              [''razon_social'', ''categoria'', ''municipio''])
                 (take n (map fst (sorted_desc
                    (filter (\<lambda>s. fst s \<noteq> p) (enumerate 0 (matrix ! p))))))))"

text \<open>
  The summary statistics as the specification words them: over the cells that are numbers,
  text and missing cells left out.
\<close>

definition summary_spec :: "cell list \<Rightarrow> stats" where
  "summary_spec cs = describe (concat (map number_of cs))"

section \<open>A small registry\<close>

text \<open>
  A file of five rows: one establishment of another department, three of Quindio, and a
  repeated last row. The header has the columns the code reads by name. The room counts
  were read as numbers with one cell missing, the bed counts as text because of the cells
  \<^verbatim>\<open>sin dato\<close>.
\<close>

definition parse_demo :: "string \<Rightarrow> rat option" where
  "parse_demo s = (if s = ''12'' then Some 12 else if s = ''60'' then Some 60 else None)"

definition csv_demo :: dataframe where
  "csv_demo =
     \<lparr> columns = [''RAZON_SOCIAL_ESTABLECIMIENTO'', ''RAZON_SOCIAL'', ''DEPARTAMENTO'',
                  ''MUNICIPIO'', ''CATEGORIA'', ''NUMERO_DE_HABITACIONES'',
                  ''NUMERO_DE_CAMAS'', ''NUMERO_DE_EMPLEADOS''],
       rows =
         [(0, [Str ''Hotel Andino'', Str ''Hotel Andino'', Str ''BOGOTA'', Str ''Bogota'',
               Str ''Hospedaje'', Num 30, Str ''60'', Num 9]),
          (1, [Str ''Hotel Sol'', Str ''Hotel Sol'', Str ''QUINDIO'', Str ''Armenia'',
               Str ''Hospedaje'', Num 10, Str ''12'', Num 4]),
          (2, [NaN, Str ''Cafe Rio'', Str ''QUINDIO'', Str ''Calarca'',
               Str ''Restaurante'', NaN, NaN, Num 3]),
          (3, [Str ''Cafe Luna'', Str ''Cafe Luna'', Str ''QUINDIO'', Str ''Calarca'',
               Str ''Restaurante'', Num 20, Str ''sin dato'', Num 5]),
          (4, [Str ''Cafe Luna'', Str ''Cafe Luna'', Str ''QUINDIO'', Str ''Calarca'',
               Str ''Restaurante'', Num 20, Str ''sin dato'', Num 5])] \<rparr>"

definition tabla_demo :: dataframe where
  "tabla_demo =
     \<lparr> columns = [''razon_social_establecimiento'', ''razon_social'', ''departamento'',
                  ''municipio'', ''categoria'', ''numero_de_habitaciones'',
                  ''numero_de_camas'', ''numero_de_empleados''],
       rows =
         [(1, [Str ''Hotel Sol'', Str ''Hotel Sol'', Str ''QUINDIO'', Str ''Armenia'',
               Str ''Hospedaje'', Num 10, Num 12, Num 4]),
          (2, [Str ''DESCONOCIDO'', Str ''Cafe Rio'', Str ''QUINDIO'', Str ''Calarca'',
               Str ''Restaurante'', Str ''No disponible'', Str ''No disponible'', Num 3]),
          (3, [Str ''Cafe Luna'', Str ''Cafe Luna'', Str ''QUINDIO'', Str ''Calarca'',
               Str ''Restaurante'', Num 20, Str ''No disponible'', Num 5])] \<rparr>"

text \<open>The cosine similarities of the three rows of \<open>tabla_demo\<close>.\<close>

definition sim_demo :: "real list list" where
  "sim_demo = [[1, 0, 0], [0, 1, 1], [0, 1, 1]]"

text \<open>Two hotels of one category and town, in a file that holds nothing else.\<close>

definition tabla_par :: dataframe where
  "tabla_par =
     \<lparr> columns = [''razon_social'', ''categoria'', ''municipio''],
       rows = [(0, [Str ''Hotel Luna'', Str ''Hospedaje'', Str ''Armenia'']),
               (1, [Str ''Hotel Sol'', Str ''Hospedaje'', Str ''Armenia''])] \<rparr>"

definition sim_par :: "real list list" where
  "sim_par = [[1, 1], [1, 1]]"

text \<open>
  The demo tables hold text in the category and locality columns, so no number is ever
  rendered there.
\<close>

definition fmt_demo :: "rat \<Rightarrow> string" where
  "fmt_demo q = ''0''"

text \<open>\<open>tabla_demo\<close> after \<^verbatim>\<open>calcular_similitud\<close>.\<close>

definition tabla_demo_info :: dataframe where
  "tabla_demo_info =
     \<lparr> columns = [''razon_social_establecimiento'', ''razon_social'', ''departamento'',
                  ''municipio'', ''categoria'', ''numero_de_habitaciones'',
                  ''numero_de_camas'', ''numero_de_empleados'', ''info''],
       rows =
         [(1, [Str ''Hotel Sol'', Str ''Hotel Sol'', Str ''QUINDIO'', Str ''Armenia'',
               Str ''Hospedaje'', Num 10, Num 12, Num 4, Str ''Hospedaje Armenia'']),
          (2, [Str ''DESCONOCIDO'', Str ''Cafe Rio'', Str ''QUINDIO'', Str ''Calarca'',
               Str ''Restaurante'', Str ''No disponible'', Str ''No disponible'', Num 3,
               Str ''Restaurante Calarca'']),
          (3, [Str ''Cafe Luna'', Str ''Cafe Luna'', Str ''QUINDIO'', Str ''Calarca'',
               Str ''Restaurante'', Num 20, Str ''No disponible'', Num 5,
               Str ''Restaurante Calarca''])] \<rparr>"

text \<open>
  What scikit-learn returns for documents like those of the demo tables, each of two
  different words, two documents having both words in common or none: every row has the
  norm \<open>sqrt 2\<close>, and in doubles the product of two equal normalised rows is
  0.9999999999999998, that is \<open>1 - 1 / 2 ^ 52\<close>, while rows without a common word give 0.
  (\<open>sim_demo\<close> and \<open>sim_par\<close> hold these scores before rounding; the ties are the same.)
\<close>

definition sk_demo :: "string list \<Rightarrow> py_error + rat list list" where
  "sk_demo docs = Inr (map (\<lambda>d. map (\<lambda>e. if d = e then 1 - 1 / 2 ^ 52 else 0) docs) docs)"

definition sim_demo_doubles :: "rat list list" where
  "sim_demo_doubles =
     [[1 - 1 / 2 ^ 52, 0, 0], [0, 1 - 1 / 2 ^ 52, 1 - 1 / 2 ^ 52],
      [0, 1 - 1 / 2 ^ 52, 1 - 1 / 2 ^ 52]]"



section \<open>Theorems\<close>

subsection \<open>Facts about the table operations\<close>

lemma col_index_Inr:
  assumes "col_index name df = Inr k"
  shows "k < length (columns df)" and "columns df ! k = name"
proof -
  from assms have "col_positions name (columns df) = [k]"
    by (auto simp: col_index_def split: list.splits)
  then have "k \<in> set (filter (\<lambda>i. columns df ! i = name) [0..<length (columns df)])"
    by (simp add: col_positions_def)
  then show "k < length (columns df)" and "columns df ! k = name" by auto
qed

lemma columns_map_col [simp]: "columns (map_col k f df) = columns df"
  by (simp add: map_col_def)

lemma col_index_map_col [simp]: "col_index name (map_col k f df) = col_index name df"
  by (simp add: col_index_def)

lemma set_keep_first: "set (keep_first seen rs) \<subseteq> set rs"
  by (induction rs arbitrary: seen) auto


lemma procesar_Inr:
  assumes "procesar parse data = Inr T"
  obtains k1 k2 k3 k4 k5 where
    "col_index ''RAZON_SOCIAL_ESTABLECIMIENTO'' data = Inr k1"
    "col_index ''NUMERO_DE_EMPLEADOS'' data = Inr k2"
    "col_index ''NUMERO_DE_CAMAS'' data = Inr k3"
    "col_index ''NUMERO_DE_HABITACIONES'' data = Inr k4"
    "col_index ''DEPARTAMENTO'' data = Inr k5"
    "T = drop_duplicates (fillna_all ''No disponible'' (rename_columns
           ((map_col k4 (to_numeric parse) (map_col k3 (to_numeric parse)
              (map_col k2 (to_numeric parse) (map_col k1 (fillna ''DESCONOCIDO'') data))))
            \<lparr> rows := filter (\<lambda>r. cell_at (snd r) k5 = Str ''QUINDIO'')
                 (rows (map_col k4 (to_numeric parse) (map_col k3 (to_numeric parse)
              (map_col k2 (to_numeric parse) (map_col k1 (fillna ''DESCONOCIDO'') data))))) \<rparr>)))"
  using assms
  by (auto simp: procesar_def fillna_column_def to_numeric_column_def filter_eq_def bind_err_def
           split: sum.splits)

lemma rows_map_col: "rows (map_col k f df) = map (\<lambda>r. (fst r, update_at k f (snd r))) (rows df)"
  by (simp add: map_col_def)

lemma clean_cell_row:
  assumes "k1 \<noteq> k2" "k1 \<noteq> k3" "k1 \<noteq> k4" "j < length cs"
  shows "clean_cell parse (cs ! j)
           (map (fillna ''No disponible'')
              (update_at k4 (to_numeric parse) (update_at k3 (to_numeric parse) (update_at k2 (to_numeric parse)
                 (update_at k1 (fillna ''DESCONOCIDO'') cs)))) ! j)"
proof -
  have fill: "fillna v c \<noteq> NaN" for v c by (cases c) auto
  have num: "c' = c \<or> c' = NaN \<or> from_source parse c c'" if "c' = to_numeric parse c" for c c'
    using that by (cases c) (auto simp: from_source_def split: option.splits)
  show ?thesis
    using assms
    apply (simp add: update_at_def cell_at_def nth_list_update clean_cell_def fill)
    apply (cases "cs ! j")
    apply (auto simp: from_source_def split: option.splits)
    done
qed

lemma length_update_at [simp]: "length (update_at k f cs) = length cs"
  by (simp add: update_at_def)




lemma col_positions_Nil_iff: "col_positions name cols = [] \<longleftrightarrow> name \<notin> set cols"
  by (auto simp: col_positions_def filter_empty_conv set_conv_nth)

lemma col_positions_append_other:
  "name \<noteq> other \<Longrightarrow> col_positions name (cols @ [other]) = col_positions name cols"
proof -
  assume "name \<noteq> other"
  then have "filter (\<lambda>i. (cols @ [other]) ! i = name) [0..<length cols]
             = filter (\<lambda>i. cols ! i = name) [0..<length cols]"
    by (intro filter_cong) (auto simp: nth_append)
  with \<open>name \<noteq> other\<close> show ?thesis by (simp add: col_positions_def)
qed

lemma col_positions_append_new:
  "name \<notin> set cols \<Longrightarrow> col_positions name (cols @ [name]) = [length cols]"
proof -
  assume "name \<notin> set cols"
  then have "filter (\<lambda>i. (cols @ [name]) ! i = name) [0..<length cols] = []"
    by (auto simp: filter_empty_conv nth_append)
  then show ?thesis by (simp add: col_positions_def)
qed

lemma col_positions_bound: "k \<in> set (col_positions name cols) \<Longrightarrow> k < length cols \<and> cols ! k = name"
  by (auto simp: col_positions_def)

lemma col_index_field:
  assumes "col_index name df = Inr k"
  shows "field name df cs = cell_at cs k"
  using assms by (auto simp: col_index_def field_def split: list.splits)

lemma info_text_columns:
  assumes "col_index ''categoria'' df = Inr kc" "col_index ''municipio'' df = Inr km"
  shows "info_text fmt kc km df =
           map2 (\<lambda>c m. astype_str fmt c @ '' '' @ astype_str fmt m)
             (column ''categoria'' df) (column ''municipio'' df)"
  by (simp add: info_text_def column_def col_index_field [OF assms(1)] col_index_field [OF assms(2)]
        zip_map1 zip_map2 zip_same_conv_map o_def)

lemma assign_column_effect:
  assumes wf: "well_formed df" and len: "length vs = length (rows df)"
    and a: "assign_column new vs df = Inr df'"
  shows "columns df' = (if new \<in> set (columns df) then columns df else columns df @ [new])"
    and "map fst (rows df') = map fst (rows df)"
    and "name \<noteq> new \<Longrightarrow> column name df' = column name df"
    and "column new df' = vs"
proof -
  have wf': "length (snd (rows df ! i)) = length (columns df)" if "i < length (rows df)" for i
    using wf that by (simp add: well_formed_def list_all_iff)
  consider (fresh) "col_positions new (columns df) = []"
      "df' = \<lparr> columns = columns df @ [new],
               rows = map2 (\<lambda>r v. (fst r, snd r @ [v])) (rows df) vs \<rparr>"
    | (old) k where "col_positions new (columns df) = [k]"
      "df' = df \<lparr> rows := map2 (\<lambda>r v. (fst r, (snd r)[k := v])) (rows df) vs \<rparr>"
    using a by (auto simp: assign_column_def split: list.splits)
  note cases = this
  show "columns df' = (if new \<in> set (columns df) then columns df else columns df @ [new])"
  proof (cases rule: cases)
    case fresh
    then show ?thesis by (simp add: col_positions_Nil_iff)
  next
    case old
    then have "col_positions new (columns df) \<noteq> []" by simp
    then have "new \<in> set (columns df)" by (simp add: col_positions_Nil_iff)
    with old show ?thesis by simp
  qed
  show "map fst (rows df') = map fst (rows df)"
    using len by (cases rule: cases) (auto intro!: nth_equalityI)
  show "column new df' = vs"
  proof (cases rule: cases)
    case fresh
    then have "new \<notin> set (columns df)" by (simp add: col_positions_Nil_iff)
    then have p: "col_positions new (columns df @ [new]) = [length (columns df)]"
      by (rule col_positions_append_new)
    show ?thesis
      using len wf'
      by (auto simp: fresh column_def field_def p cell_at_def nth_append intro!: nth_equalityI)
  next
    case old
    then have "k < length (columns df)"
      using col_positions_bound [of k new "columns df"] by simp
    then show ?thesis
      using len wf' by (auto simp: old column_def field_def cell_at_def intro!: nth_equalityI)
  qed
  show "column name df' = column name df" if ne: "name \<noteq> new"
  proof (cases rule: cases)
    case fresh
    have bound: "k < length (columns df)" if "col_positions name (columns df) = k # ks" for k ks
      using col_positions_bound [of k name "columns df"] that by simp
    show ?thesis
      using len wf' bound
      by (auto simp: fresh column_def field_def col_positions_append_other [OF ne] cell_at_def
            nth_append split: list.splits intro!: nth_equalityI)
  next
    case old
    have neq: "j \<noteq> k" if "col_positions name (columns df) = j # js" for j js
      using col_positions_bound [of j name "columns df"] col_positions_bound [of k new "columns df"]
        that old ne by auto
    show ?thesis
      using len neq
      by (auto simp: old column_def field_def cell_at_def split: list.splits intro!: nth_equalityI)
  qed
qed

subsection \<open>Facts about \<^verbatim>\<open>calcular_similitud\<close>\<close>

lemma calcular_similitud_body_Inr:
  assumes "calcular_similitud_body fmt sk df = (df', Inr M)"
  obtains kc km where
    "col_index ''categoria'' df = Inr kc"
    "col_index ''municipio'' df = Inr km"
    "assign_column ''info'' (map Str (info_text fmt kc km df)) df = Inr df'"
    "sk (info_text fmt kc km df) = Inr M"
  using assms
  by (auto simp: calcular_similitud_body_def Let_def split: sum.splits)

lemma body_result_depends:
  assumes "snd (calcular_similitud_body fmt sk d1) = Inr M1"
    and "snd (calcular_similitud_body fmt sk d2) = Inr M2"
    and "column ''categoria'' d1 = column ''categoria'' d2"
    and "column ''municipio'' d1 = column ''municipio'' d2"
  shows "M1 = M2"
proof -
  from assms(1) obtain d1' where "calcular_similitud_body fmt sk d1 = (d1', Inr M1)"
    by (metis prod.collapse)
  then obtain kc1 km1 where
    1: "col_index ''categoria'' d1 = Inr kc1" "col_index ''municipio'' d1 = Inr km1"
       "sk (info_text fmt kc1 km1 d1) = Inr M1"
    by (rule calcular_similitud_body_Inr)
  from assms(2) obtain d2' where "calcular_similitud_body fmt sk d2 = (d2', Inr M2)"
    by (metis prod.collapse)
  then obtain kc2 km2 where
    2: "col_index ''categoria'' d2 = Inr kc2" "col_index ''municipio'' d2 = Inr km2"
       "sk (info_text fmt kc2 km2 d2) = Inr M2"
    by (rule calcular_similitud_body_Inr)
  have "info_text fmt kc1 km1 d1 = info_text fmt kc2 km2 d2"
    by (simp add: info_text_columns [OF 1(1,2)] info_text_columns [OF 2(1,2)] assms(3,4))
  with 1(3) 2(3) show ?thesis by simp
qed

lemma cache_ok_lookup:
  "cache_ok fmt sk cache \<Longrightarrow> map_of cache d = Some M
     \<Longrightarrow> snd (calcular_similitud_body fmt sk d) = Inr M"
  by (induction cache) (auto simp: cache_ok_def split: if_splits)

lemma calcular_similitud_result:
  assumes "cache_ok fmt sk cache"
    and "calcular_similitud fmt sk cache df = (df', Inr M, cache')"
  shows "snd (calcular_similitud_body fmt sk df) = Inr M"
proof (cases "map_of cache df")
  case None
  with assms(2) show ?thesis
    by (auto simp: calcular_similitud_def split: prod.splits sum.splits)
next
  case (Some M0)
  with assms(2) have "M0 = M" by (simp add: calcular_similitud_def)
  with Some assms(1) show ?thesis by (simp add: cache_ok_lookup)
qed

subsection \<open>Facts about the recommender\<close>

text \<open>
  Two parts of the specification that the code does meet. For a square matrix aligned with
  the table and \<open>n\<close> of at least 1, a returned table has at most \<open>n\<close> rows and at most
  R - 1. A query without special characters is searched as a literal substring, letter case
  ignored.
\<close>

lemma length_insert_desc [simp]: "length (insert_desc x ys) = Suc (length ys)"
  by (induction ys) auto

lemma length_foldl_insert_desc:
  "length (foldl (\<lambda>acc x. insert_desc x acc) acc xs) = length acc + length xs"
  by (induction xs arbitrary: acc) auto

lemma length_sorted_desc [simp]: "length (sorted_desc xs) = length xs"
  by (simp add: sorted_desc_def length_foldl_insert_desc)

lemma length_slice_from_1:
  "0 \<le> n \<Longrightarrow> length (slice_from_1 xs (n + 1)) = min (nat n) (length xs - 1)"
  by (auto simp: slice_from_1_def Let_def min_def)

lemma length_rows_project: "project names df = Inr d \<Longrightarrow> length (rows d) = length (rows df)"
  by (auto simp: project_def Let_def split: if_splits)

lemma recomendar_length:
  assumes res: "recomendar_establecimientos nombre df similaridad n = Inr (Some d)"
    and n: "1 \<le> n"
    and sq: "list_all (\<lambda>row. length row = length (rows df)) similaridad"
  shows "length (rows d) \<le> nat n \<and> length (rows d) \<le> length (rows df) - 1"
proof -
  from res obtain idx sel where
    idx: "\<not> length similaridad \<le> idx" and
    sel: "iloc (map fst (slice_from_1 (sorted_desc (enumerate 0 (similaridad ! idx))) (n + 1))) df
            = Inr sel" and
    d: "project [''razon_social'', ''categoria'', ''municipio''] sel = Inr d"
    by (auto simp: recomendar_establecimientos_def Let_def map_sum_def
             split: list.splits sum.splits if_splits)
  from sq idx have len: "length (similaridad ! idx) = length (rows df)"
    by (simp add: list_all_length)
  from sel have "length (rows sel)
      = length (slice_from_1 (sorted_desc (enumerate 0 (similaridad ! idx))) (n + 1))"
    by (auto simp: iloc_def split: if_splits)
  also have "\<dots> = min (nat n) (length (rows df) - 1)"
    using n by (simp add: length_slice_from_1 len)
  finally show ?thesis
    using length_rows_project [OF d] by simp
qed

lemma compile_atoms_plain:
  "list_all (\<lambda>c. c \<notin> set special_chars) q \<Longrightarrow> compile_atoms q = Inr (map Lit q)"
  by (induction q) (auto simp: special_chars_def)

lemma re_compile_plain:
  assumes "list_all (\<lambda>c. c \<notin> set special_chars) q"
  shows "re_compile q = Inr (map Lit q)"
proof (cases q)
  case Nil
  then show ?thesis by (simp add: re_compile_def)
next
  case (Cons c cs)
  with assms have "c \<notin> set ''*+?''" by (auto simp: special_chars_def)
  with Cons compile_atoms_plain [OF assms] show ?thesis by (simp add: re_compile_def)
qed

lemma match_here_literal:
  "match_here (map Lit q) s \<longleftrightarrow> prefix (map lower_char q) (map lower_char s)"
proof (induction q arbitrary: s)
  case Nil
  then show ?case by simp
next
  case (Cons c q)
  then show ?case by (cases s) auto
qed

lemma re_search_literal:
  "re_search (map Lit q) s \<longleftrightarrow> sublist (map lower_char q) (map lower_char s)"
proof (induction s)
  case Nil
  then show ?case by (cases q) auto
next
  case (Cons c s)
  then show ?case by (simp add: match_here_literal sublist_Cons_right)
qed

lemma str_contains_literal: "str_contains (map Lit q) c = contains_literal q c"
  by (cases c) (simp_all add: re_search_literal)

subsection \<open>The demo tables\<close>

text \<open>
  \<open>tabla_demo\<close> is the table \<^verbatim>\<open>cargar_datos\<close> returns for the demo file, with the labels
  1, 2, 3 of the file's rows. The first call of \<^verbatim>\<open>calcular_similitud\<close> on it adds the
  column \<^verbatim>\<open>info\<close> and fills the cache; the second finds the table in the cache and leaves
  it alone.
\<close>

lemma cargar_datos_demo: "cargar_datos parse_demo (Inr csv_demo) = Some tabla_demo"
  by code_simp

lemma well_formed_demo: "well_formed tabla_demo"
  by code_simp

lemma calcular_similitud_body_demo:
  "calcular_similitud_body fmt_demo sk_demo tabla_demo = (tabla_demo_info, Inr sim_demo_doubles)"
proof -
  have 1: "col_index ''categoria'' tabla_demo = Inr 4" by code_simp
  have 2: "col_index ''municipio'' tabla_demo = Inr 3" by code_simp
  have 3: "assign_column ''info'' (map Str (info_text fmt_demo 4 3 tabla_demo)) tabla_demo
           = Inr tabla_demo_info"
    by code_simp
  have 4: "sk_demo (info_text fmt_demo 4 3 tabla_demo) = Inr sim_demo_doubles"
    by (simp add: sk_demo_def info_text_def tabla_demo_def astype_str_def cell_at_def
          sim_demo_doubles_def)
  show ?thesis
    by (simp add: calcular_similitud_body_def 1 2 3 4 Let_def)
qed

lemma calcular_similitud_demo:
  "calcular_similitud fmt_demo sk_demo [] tabla_demo
     = (tabla_demo_info, Inr sim_demo_doubles, [(tabla_demo, sim_demo_doubles)])"
  by (simp add: calcular_similitud_def calcular_similitud_body_demo)

lemma calcular_similitud_demo_again:
  "calcular_similitud fmt_demo sk_demo [(tabla_demo, sim_demo_doubles)] tabla_demo
     = (tabla_demo, Inr sim_demo_doubles, [(tabla_demo, sim_demo_doubles)])"
  by (simp add: calcular_similitud_def)


lemma habitaciones_demo: "column_values ''numero_de_habitaciones'' tabla_demo = Inl TypeError"
  by code_simp

lemma cols_numericas_demo: "list_all (\<lambda>col. col \<in> set (columns tabla_demo)) cols_numericas"
  by (simp add: cols_numericas_def tabla_demo_def)

subsection \<open>The claims\<close>

text \<open>
  Claim C1. The recommender should rank the other rows by the matrix row of the matched
  row, matrix row \<open>i\<close> being row \<open>i\<close> of the cleaned table. The code reads the matrix at the
  matched row's label. On the cleaned demo table the query \<open>sol\<close> matches Hotel Sol, at
  position 0 with label 1; the code ranks by matrix row 1, the row of Cafe Rio, and
  recommends Cafe Luna, where ranking by row 0 recommends Cafe Rio.
\<close>

theorem recomendar_reads_matrix_at_label:
  "recomendar_establecimientos ''sol'' tabla_demo sim_demo 1 =
     Inr (Some \<lparr> columns = [''razon_social'', ''categoria'', ''municipio''],
                 rows = [(3, [Str ''Cafe Luna'', Str ''Restaurante'', Str ''Calarca''])] \<rparr>)
   \<and> recommend_spec ''sol'' tabla_demo sim_demo 1 =
     Some [[Str ''Cafe Rio'', Str ''Restaurante'', Str ''Calarca'']]"
  by code_simp

text \<open>
  Claim C2. The result should never hold the matched row. The code drops the head of the
  sorted scores, which is the matched row only when no earlier row has the same score.
  With two hotels of one category and town, labels equal to positions, the query \<open>sol\<close>
  matches the second row and the code returns that very row. (The two length bounds of the
  claim hold: \<open>recomendar_length\<close>.)
\<close>

theorem recomendar_returns_matched_row:
  "recomendar_establecimientos ''sol'' tabla_par sim_par 1 =
     Inr (Some \<lparr> columns = [''razon_social'', ''categoria'', ''municipio''],
                 rows = [(1, [Str ''Hotel Sol'', Str ''Hospedaje'', Str ''Armenia''])] \<rparr>)"
  by code_simp

text \<open>
  Claim C3. The query should be searched as a literal substring. The code searches it as a
  regular expression: no trade name of the pair table contains a dot, so the literal
  search finds nothing, and the code matches the first row. (For a query without special
  characters the two searches agree: \<open>re_compile_plain\<close>, \<open>str_contains_literal\<close>.)
\<close>

theorem recomendar_query_is_pattern:
  "recomendar_establecimientos ''.'' tabla_par sim_par 1 =
     Inr (Some \<lparr> columns = [''razon_social'', ''categoria'', ''municipio''],
                 rows = [(1, [Str ''Hotel Sol'', Str ''Hospedaje'', Str ''Armenia''])] \<rparr>)
   \<and> recommend_spec ''.'' tabla_par sim_par 1 = None"
  by code_simp

text \<open>
  Claim C4. NotFound should mean that no trade name matches, and no exception should reach
  the caller. On the cleaned demo table the query \<open>luna\<close> matches Cafe Luna, whose label 3
  is no row of the 3 by 3 matrix: the IndexError of the matrix read is caught and the code
  returns \<^verbatim>\<open>None\<close>. The query \<open>*\<close> is refused by \<^verbatim>\<open>re.compile\<close>, and that exception is
  not caught.
\<close>

theorem recomendar_none_for_a_match:
  "recomendar_establecimientos ''luna'' tabla_demo sim_demo 5 = Inr None
   \<and> recommend_spec ''luna'' tabla_demo sim_demo 5 =
     Some [[Str ''Cafe Rio'', Str ''Restaurante'', Str ''Calarca''],
           [Str ''Hotel Sol'', Str ''Hospedaje'', Str ''Armenia'']]
   \<and> recomendar_establecimientos ''*'' tabla_demo sim_demo 5 = Inl ReError"
  by code_simp

text \<open>
  Claim C5. Every cell of every row of the table \<^verbatim>\<open>cargar_datos\<close> returns is not missing:
  it is the cell the file had in that row and column (a capacity cell read as text is the
  number it parses to), or one of the two sentinel texts.
\<close>

theorem cargar_datos_no_missing:
  assumes "cargar_datos parse csv = Some T"
  shows "\<exists>data. csv = Inr data \<and>
           (\<forall>r \<in> set (rows T). \<exists>r0 \<in> set (rows data).
               fst r0 = fst r \<and> length (snd r) = length (snd r0) \<and>
               (\<forall>j < length (snd r). clean_cell parse (snd r0 ! j) (snd r ! j)))"
proof -
  from assms obtain data where csv: "csv = Inr data" and run: "procesar parse data = Inr T"
    by (auto simp: cargar_datos_def bind_err_def split: sum.splits)
  from run obtain k1 k2 k3 k4 k5 where
    k1: "col_index ''RAZON_SOCIAL_ESTABLECIMIENTO'' data = Inr k1" and
    k2: "col_index ''NUMERO_DE_EMPLEADOS'' data = Inr k2" and
    k3: "col_index ''NUMERO_DE_CAMAS'' data = Inr k3" and
    k4: "col_index ''NUMERO_DE_HABITACIONES'' data = Inr k4" and
    T: "T = drop_duplicates (fillna_all ''No disponible'' (rename_columns
           ((map_col k4 (to_numeric parse) (map_col k3 (to_numeric parse)
              (map_col k2 (to_numeric parse) (map_col k1 (fillna ''DESCONOCIDO'') data))))
            \<lparr> rows := filter (\<lambda>r. cell_at (snd r) k5 = Str ''QUINDIO'')
                 (rows (map_col k4 (to_numeric parse) (map_col k3 (to_numeric parse)
              (map_col k2 (to_numeric parse) (map_col k1 (fillna ''DESCONOCIDO'') data))))) \<rparr>)))"
    by (rule procesar_Inr)
  have ne: "k1 \<noteq> k2" "k1 \<noteq> k3" "k1 \<noteq> k4"
    using col_index_Inr(2)[OF k1] col_index_Inr(2)[OF k2] col_index_Inr(2)[OF k3]
      col_index_Inr(2)[OF k4] by auto
  define g where "g cs = map (fillna ''No disponible'')
              (update_at k4 (to_numeric parse) (update_at k3 (to_numeric parse) (update_at k2 (to_numeric parse)
                 (update_at k1 (fillna ''DESCONOCIDO'') cs))))" for cs
  have sub: "set (rows T) \<subseteq> (\<lambda>r. (fst r, g (snd r))) ` set (rows data)"
  proof -
    have "set (rows T) \<subseteq> set (rows (fillna_all ''No disponible'' (rename_columns
           ((map_col k4 (to_numeric parse) (map_col k3 (to_numeric parse)
              (map_col k2 (to_numeric parse) (map_col k1 (fillna ''DESCONOCIDO'') data))))
            \<lparr> rows := filter (\<lambda>r. cell_at (snd r) k5 = Str ''QUINDIO'')
                 (rows (map_col k4 (to_numeric parse) (map_col k3 (to_numeric parse)
              (map_col k2 (to_numeric parse) (map_col k1 (fillna ''DESCONOCIDO'') data))))) \<rparr>))))"
      unfolding T drop_duplicates_def using set_keep_first by simp
    also have "\<dots> \<subseteq> (\<lambda>r. (fst r, g (snd r))) ` set (rows data)"
    proof -
      have r4: "rows (map_col k4 (to_numeric parse) (map_col k3 (to_numeric parse)
              (map_col k2 (to_numeric parse) (map_col k1 (fillna ''DESCONOCIDO'') data))))
            = map (\<lambda>r. (fst r, update_at k4 (to_numeric parse) (update_at k3 (to_numeric parse) (update_at k2 (to_numeric parse)
                 (update_at k1 (fillna ''DESCONOCIDO'') (snd r)))))) (rows data)"
        by (simp add: rows_map_col update_at_def o_def)
      show ?thesis
        unfolding r4 by (force simp: fillna_all_def rename_columns_def g_def)
    qed
    finally show ?thesis .
  qed
  have "\<exists>r0 \<in> set (rows data).
               fst r0 = fst r \<and> length (snd r) = length (snd r0) \<and>
               (\<forall>j < length (snd r). clean_cell parse (snd r0 ! j) (snd r ! j))"
    if "r \<in> set (rows T)" for r
  proof -
    from that sub obtain r0 where r0: "r0 \<in> set (rows data)" and r: "r = (fst r0, g (snd r0))"
      by auto
    have len: "length (g cs) = length cs" for cs by (simp add: g_def)
    have "clean_cell parse (snd r0 ! j) (g (snd r0) ! j)" if "j < length (snd r0)" for j
      unfolding g_def using ne that by (rule clean_cell_row)
    with r0 r len show ?thesis by auto
  qed
  with csv show ?thesis by blast
qed

theorem cargar_datos_no_missing_demo:
  "cargar_datos parse_demo (Inr csv_demo) = Some tabla_demo \<and>
   (\<exists>data. (Inr csv_demo :: py_error + dataframe) = Inr data \<and>
      (\<forall>r \<in> set (rows tabla_demo). \<exists>r0 \<in> set (rows data).
          fst r0 = fst r \<and> length (snd r) = length (snd r0) \<and>
          (\<forall>j < length (snd r). clean_cell parse_demo (snd r0 ! j) (snd r ! j))))"
  using cargar_datos_no_missing [OF cargar_datos_demo] cargar_datos_demo by simp

text \<open>
  Claim C6. The summary statistics should be computed over the cells that are numbers,
  sentinel text left out: mean 15, minimum 10 and maximum 20 for the room counts 10,
  "not available", 20. The cleaned demo table has exactly this room-count column, the
  missing cell having been filled with the sentinel by \<^verbatim>\<open>cargar_datos\<close>; on it the code
  computes no statistic at all: the reduction raises TypeError.
\<close>

theorem descriptive_stats_raises_on_sentinel:
  "column ''numero_de_habitaciones'' tabla_demo = [Num 10, Str ''No disponible'', Num 20]
   \<and> descriptive_stats tabla_demo = Inl TypeError
   \<and> media (summary_spec [Num 10, Str ''No disponible'', Num 20]) = Some 15
   \<and> minimo (summary_spec [Num 10, Str ''No disponible'', Num 20]) = Some 10
   \<and> maximo (summary_spec [Num 10, Str ''No disponible'', Num 20]) = Some 20"
proof -
  have "column ''numero_de_habitaciones'' tabla_demo = [Num 10, Str ''No disponible'', Num 20]"
    by code_simp
  moreover have "descriptive_stats tabla_demo = Inl TypeError"
    using cols_numericas_demo
    by (simp add: descriptive_stats_def cols_numericas_def habitaciones_demo bind_err_def)
  moreover have "media (summary_spec [Num 10, Str ''No disponible'', Num 20]) = Some 15"
    "minimo (summary_spec [Num 10, Str ''No disponible'', Num 20]) = Some 10"
    "maximo (summary_spec [Num 10, Str ''No disponible'', Num 20]) = Some 20"
    by (simp_all add: summary_spec_def describe_def mean_def minimum_def maximum_def)
  ultimately show ?thesis by simp
qed

text \<open>
  Claim C8. The function should leave the table as it found it. It does not: a call whose
  result is not in the cache stores the feature text in the table, as a new column
  \<^verbatim>\<open>info\<close>.
\<close>

theorem calcular_similitud_changes_table:
  "columns (fst (calcular_similitud fmt_demo sk_demo [] tabla_par))
     = [''razon_social'', ''categoria'', ''municipio'', ''info'']
   \<and> fst (calcular_similitud fmt_demo sk_demo [] tabla_par) \<noteq> tabla_par"
proof -
  have 1: "col_index ''categoria'' tabla_par = Inr 1" by code_simp
  have 2: "col_index ''municipio'' tabla_par = Inr 2" by code_simp
  have 3: "col_positions ''info'' (columns tabla_par) = []" by code_simp
  have 4: "columns tabla_par = [''razon_social'', ''categoria'', ''municipio'']"
    by (simp add: tabla_par_def)
  have "columns (fst (calcular_similitud fmt_demo sk_demo [] tabla_par))
          = [''razon_social'', ''categoria'', ''municipio'', ''info'']"
    by (simp add: calcular_similitud_def calcular_similitud_body_def 1 2 3 assign_column_def
          Let_def sk_demo_def del: One_nat_def)
       (simp add: 4)
  with 4 show ?thesis by auto
qed

text \<open>
  Claim C8, amended. Take a call of \<^verbatim>\<open>calcular_similitud\<close> that returns a matrix, on a
  well-formed table and with a cache that holds only what earlier calls stored. When the
  table is in the cache, the call leaves the table and the cache unchanged. When it is not,
  the call leaves the labels and every column other than \<^verbatim>\<open>info\<close> as they were, the column
  \<^verbatim>\<open>info\<close> (new, or overwritten when the table had one) holds the feature texts, and the
  matrix is stored under the table. Either way the cache stays one that holds only what
  calls stored, and the matrix depends on the category and locality columns only: any other
  such call on a table with the same two columns returns the same matrix.
\<close>

theorem calcular_similitud_effect:
  assumes "well_formed df" and "cache_ok fmt sk cache"
    and "calcular_similitud fmt sk cache df = (df', Inr M, cache')"
  shows "(map_of cache df \<noteq> None \<longrightarrow> df' = df \<and> cache' = cache)
       \<and> (map_of cache df = None \<longrightarrow>
            columns df' = (if ''info'' \<in> set (columns df) then columns df
                           else columns df @ [''info''])
          \<and> map fst (rows df') = map fst (rows df)
          \<and> (\<forall>name. name \<noteq> ''info'' \<longrightarrow> column name df' = column name df)
          \<and> column ''info'' df' = map Str (feature_texts fmt df)
          \<and> cache' = (df, M) # cache)
       \<and> cache_ok fmt sk cache'
       \<and> (\<forall>cache2 d2 d2' M2 c2.
              cache_ok fmt sk cache2
              \<and> calcular_similitud fmt sk cache2 d2 = (d2', Inr M2, c2)
              \<and> column ''categoria'' d2 = column ''categoria'' df
              \<and> column ''municipio'' d2 = column ''municipio'' df \<longrightarrow> M2 = M)"
proof -
  have res: "snd (calcular_similitud_body fmt sk df) = Inr M"
    using assms(2,3) by (rule calcular_similitud_result)
  have hit: "df' = df \<and> cache' = cache" if "map_of cache df \<noteq> None"
    using that assms(3) by (auto simp: calcular_similitud_def)
  have miss: "columns df' = (if ''info'' \<in> set (columns df) then columns df
                           else columns df @ [''info''])
          \<and> map fst (rows df') = map fst (rows df)
          \<and> (\<forall>name. name \<noteq> ''info'' \<longrightarrow> column name df' = column name df)
          \<and> column ''info'' df' = map Str (feature_texts fmt df)
          \<and> cache' = (df, M) # cache" if none: "map_of cache df = None"
  proof -
    from none assms(3) have body: "calcular_similitud_body fmt sk df = (df', Inr M)"
      and c: "cache' = (df, M) # cache"
      by (auto simp: calcular_similitud_def split: prod.splits sum.splits)
    from body obtain kc km where
      kc: "col_index ''categoria'' df = Inr kc" and km: "col_index ''municipio'' df = Inr km" and
      a: "assign_column ''info'' (map Str (info_text fmt kc km df)) df = Inr df'"
      by (rule calcular_similitud_body_Inr)
    have len: "length (map Str (info_text fmt kc km df)) = length (rows df)"
      by (simp add: info_text_def)
    have ft: "feature_texts fmt df = info_text fmt kc km df"
      by (simp add: feature_texts_def kc km)
    note eff = assign_column_effect [OF assms(1) len a]
    from eff(3) have other: "\<forall>name. name \<noteq> ''info'' \<longrightarrow> column name df' = column name df"
      by blast
    from eff(1,2,4) other c show ?thesis
      by (simp only: ft)
  qed
  have ok: "cache_ok fmt sk cache'"
  proof (cases "map_of cache df")
    case None
    with miss have "cache' = (df, M) # cache" by simp
    with res assms(2) show ?thesis by (simp add: cache_ok_def)
  next
    case (Some M0)
    with hit assms(2) show ?thesis by simp
  qed
  have dep: "M2 = M"
    if "cache_ok fmt sk cache2" "calcular_similitud fmt sk cache2 d2 = (d2', Inr M2, c2)"
      "column ''categoria'' d2 = column ''categoria'' df"
      "column ''municipio'' d2 = column ''municipio'' df" for cache2 d2 d2' M2 c2
  proof -
    have "snd (calcular_similitud_body fmt sk d2) = Inr M2"
      using that(1,2) by (rule calcular_similitud_result)
    then show ?thesis using res that(3,4) by (rule body_result_depends)
  qed
  show ?thesis
  proof (intro conjI)
    show "map_of cache df \<noteq> None \<longrightarrow> df' = df \<and> cache' = cache"
      by (rule impI) (rule hit)
    show "map_of cache df = None \<longrightarrow>
            columns df' = (if ''info'' \<in> set (columns df) then columns df
                           else columns df @ [''info''])
          \<and> map fst (rows df') = map fst (rows df)
          \<and> (\<forall>name. name \<noteq> ''info'' \<longrightarrow> column name df' = column name df)
          \<and> column ''info'' df' = map Str (feature_texts fmt df)
          \<and> cache' = (df, M) # cache"
      by (rule impI) (rule miss)
    show "cache_ok fmt sk cache'" by (rule ok)
    show "\<forall>cache2 d2 d2' M2 c2.
              cache_ok fmt sk cache2
              \<and> calcular_similitud fmt sk cache2 d2 = (d2', Inr M2, c2)
              \<and> column ''categoria'' d2 = column ''categoria'' df
              \<and> column ''municipio'' d2 = column ''municipio'' df \<longrightarrow> M2 = M"
      using dep by blast
  qed
qed

theorem calcular_similitud_effect_demo:
  "well_formed tabla_demo \<and> cache_ok fmt_demo sk_demo []
   \<and> calcular_similitud fmt_demo sk_demo [] tabla_demo
       = (tabla_demo_info, Inr sim_demo_doubles, [(tabla_demo, sim_demo_doubles)])
   \<and> columns tabla_demo_info = columns tabla_demo @ [''info'']
   \<and> map fst (rows tabla_demo_info) = map fst (rows tabla_demo)
   \<and> column ''razon_social'' tabla_demo_info = column ''razon_social'' tabla_demo
   \<and> column ''info'' tabla_demo_info = map Str (feature_texts fmt_demo tabla_demo)
   \<and> cache_ok fmt_demo sk_demo [(tabla_demo, sim_demo_doubles)]
   \<and> calcular_similitud fmt_demo sk_demo [(tabla_demo, sim_demo_doubles)] tabla_demo
       = (tabla_demo, Inr sim_demo_doubles, [(tabla_demo, sim_demo_doubles)])"
proof -
  have i: "''info'' \<notin> set (columns tabla_demo)" by (simp add: tabla_demo_def)
  have e: "cache_ok fmt_demo sk_demo []" by (simp add: cache_ok_def)
  have n: "map_of ([] :: (dataframe \<times> rat list list) list) tabla_demo = None" by simp
  note t = calcular_similitud_effect [OF well_formed_demo e calcular_similitud_demo]
  from t n have miss:
    "columns tabla_demo_info = (if ''info'' \<in> set (columns tabla_demo) then columns tabla_demo
                           else columns tabla_demo @ [''info''])"
    "map fst (rows tabla_demo_info) = map fst (rows tabla_demo)"
    "\<forall>name. name \<noteq> ''info'' \<longrightarrow> column name tabla_demo_info = column name tabla_demo"
    "column ''info'' tabla_demo_info = map Str (feature_texts fmt_demo tabla_demo)"
    by blast+
  from t have ok: "cache_ok fmt_demo sk_demo [(tabla_demo, sim_demo_doubles)]" by blast
  from miss(3) have rs: "column ''razon_social'' tabla_demo_info = column ''razon_social'' tabla_demo"
    by simp
  from miss(1) i have cols: "columns tabla_demo_info = columns tabla_demo @ [''info'']" by simp
  from well_formed_demo e calcular_similitud_demo cols miss(2) rs miss(4) ok
    calcular_similitud_demo_again
  show ?thesis by (intro conjI)
qed






end
